theory Spec2Isabelle
  imports Complex_Main
begin

section \<open>Conventions of the embedding\<close>

text \<open>
  The services of the repository are JavaScript classes. Their numbers are modelled as
  \<^typ>\<open>real\<close> (exact arithmetic: the rounding of IEEE doubles is not modelled), an
  \<open>undefined\<close> or missing property as \<open>None\<close>, a thrown exception as the \<open>Inl\<close> branch
  of a sum, and a \<open>try\<close>/\<open>catch\<close> as a case distinction on that sum.

  String literals of the source that are written in Chinese are display texts or table
  keys; strings of this theory are ASCII, so they appear as English glosses. Each gloss is
  given beside the definition that uses it.
\<close>

subsection \<open>Exceptions\<close>

text \<open>
  The errors that the modelled code throws or receives: the unknown grade of the
  difficulty engine, the unknown model and the unsupported service of the gateway, a
  failure of a provider, a \<open>TypeError\<close> of the runtime, the invalid decision of a human
  review, and an error wrapped in a new one whose message prefixes the old message (the
  prefix is a Chinese text, glossed).
\<close>

datatype error =
    UnknownGrade string
  | UnknownModel string
  | UnsupportedService string
  | ProviderError string
  | TypeError string
  | InvalidDecision string
  | Wrapped string error

subsection \<open>JavaScript number functions\<close>

text \<open>\<open>Math.round\<close> rounds to the nearest integer, a tie towards \<open>+\<infinity>\<close>.\<close>

definition Math_round :: "real \<Rightarrow> int" where
  "Math_round x = \<lfloor>x + 1 / 2\<rfloor>"

definition Math_ceil :: "real \<Rightarrow> int" where
  "Math_ceil x = \<lceil>x\<rceil>"

text \<open>
  \<open>parseFloat(x.toFixed(3))\<close>: the nearest multiple of \<open>1/1000\<close>; \<open>toFixed\<close> rounds the
  magnitude, a tie to the larger magnitude.
\<close>

definition toFixed3 :: "real \<Rightarrow> real" where
  "toFixed3 x =
     (if x < 0 then - (real_of_int \<lfloor>(- x) * 1000 + 1 / 2\<rfloor> / 1000)
      else real_of_int \<lfloor>x * 1000 + 1 / 2\<rfloor> / 1000)"

section \<open>Difficulty engine (\<open>src/services/difficultyEngine.js\<close>)\<close>

text \<open>\<open>gradeDifficultyMap\<close>; the \<open>name\<close> property (a Chinese label) is left out.\<close>

record gradeInfo =
  gi_level :: nat
  gi_complexity :: real

definition gradeDifficultyMap :: "string \<rightharpoonup> gradeInfo" where
  "gradeDifficultyMap = map_of
     [(''UGY'', \<lparr>gi_level = 1, gi_complexity = 0.2\<rparr>),
      (''PGY1'', \<lparr>gi_level = 2, gi_complexity = 0.35\<rparr>),
      (''PGY2'', \<lparr>gi_level = 3, gi_complexity = 0.5\<rparr>),
      (''R1'', \<lparr>gi_level = 3, gi_complexity = 0.55\<rparr>),
      (''R2'', \<lparr>gi_level = 4, gi_complexity = 0.7\<rparr>),
      (''R3'', \<lparr>gi_level = 4, gi_complexity = 0.8\<rparr>),
      (''R4'', \<lparr>gi_level = 5, gi_complexity = 0.9\<rparr>),
      (''R5'', \<lparr>gi_level = 5, gi_complexity = 1.0\<rparr>)]"

text \<open>
  \<open>specialtyModifiers\<close>: each specialty with the values of its modifier object, in the
  order of the source. The keys are Chinese department names, glossed: emergency,
  surgery, internal medicine, paediatrics, obstetrics and gynaecology, psychiatry,
  family medicine.
\<close>

definition specialtyModifiers :: "string \<rightharpoonup> real list" where
  "specialtyModifiers = map_of
     [(''emergency'', [1.2, 1.3, 1.2]),
      (''surgery'', [1.3, 1.2, 1.3]),
      (''internal'', [1.2, 1.1, 1.2]),
      (''paediatrics'', [1.3, 1.2, 1.1]),
      (''obgyn'', [1.2, 1.3, 1.1]),
      (''psychiatry'', [1.4, 1.3, 1.2]),
      (''family'', [1.1, 1.1, 1.0])]"

record contentMod =
  base :: real
  cm_modifiers :: "(string \<times> real) list"

definition contentTypeDifficulty :: "string \<rightharpoonup> contentMod" where
  "contentTypeDifficulty = map_of
     [(''skill'', \<lparr>base = 0.3, cm_modifiers = [(''technical'', 1.2), (''practice'', 1.1)]\<rparr>),
      (''examination'',
         \<lparr>base = 0.4, cm_modifiers = [(''observation'', 1.1), (''interpretation'', 1.2)]\<rparr>),
      (''procedure'', \<lparr>base = 0.6, cm_modifiers = [(''technical'', 1.3), (''safety'', 1.2)]\<rparr>),
      (''disease'', \<lparr>base = 0.7, cm_modifiers = [(''diagnosis'', 1.2), (''management'', 1.3)]\<rparr>)]"

text \<open>The destructured properties of \<open>userHistory\<close>; \<open>None\<close> takes the default.\<close>

record userHistory =
  avgQualityScore :: "real option"
  recentPerformance :: "real option"
  totalLessonsCompleted :: "real option"
  approvalRate :: "real option"

record knowledgeContext =
  nationalExamFrequency :: "real option"
  clinicalImportance :: "string option"
  procedureComplexity :: "string option"
  differentialDiagnosisCount :: "real option"

record difficultyParams =
  gradeLevel :: string
  specialty :: "string option"
  contentType :: string
  baseDifficulty :: real
  userHistory :: "userHistory option"
  knowledgeContext :: "knowledgeContext option"

definition orDefault :: "'a \<Rightarrow> 'a option \<Rightarrow> 'a" where
  "orDefault d v = (case v of None \<Rightarrow> d | Some x \<Rightarrow> x)"

definition calculateHistoryAdjustment :: "userHistory \<Rightarrow> real" where
  "calculateHistoryAdjustment h =
     (let avgQ = orDefault 0.7 (avgQualityScore h);
          recent = orDefault 0.7 (recentPerformance h);
          total = orDefault 0 (totalLessonsCompleted h);
          rate = orDefault 0.7 (approvalRate h);
          adjustment = 0.8 + avgQ * 0.4;
          adjustment = (if recent > 0.85 then adjustment * 1.1
                        else if recent < 0.6 then adjustment * 0.9 else adjustment);
          adjustment = (if total > 50 then adjustment * 1.05
                        else if total < 10 then adjustment * 0.95 else adjustment);
          adjustment = (if rate > 0.9 then adjustment * 1.1
                        else if rate < 0.5 then adjustment * 0.85 else adjustment)
      in max 0.7 (min 1.3 adjustment))"

definition calculateContextAdjustment :: "knowledgeContext \<Rightarrow> real" where
  "calculateContextAdjustment k =
     (let freq = orDefault 50 (nationalExamFrequency k);
          importance = orDefault ''medium'' (clinicalImportance k);
          complexity = orDefault ''medium'' (procedureComplexity k);
          ddx = orDefault 3 (differentialDiagnosisCount k);
          adjustment = 1.0;
          adjustment = (if freq > 80 then adjustment * 1.1
                        else if freq < 30 then adjustment * 0.95 else adjustment);
          adjustment = (if importance = ''critical'' then adjustment * 1.15
                        else if importance = ''high'' then adjustment * 1.1
                        else if importance = ''low'' then adjustment * 0.9 else adjustment);
          adjustment = (if complexity = ''high'' then adjustment * 1.2
                        else if complexity = ''medium'' then adjustment * 1.0
                        else if complexity = ''low'' then adjustment * 0.9 else adjustment);
          adjustment = (if ddx > 5 then adjustment * 1.1
                        else if ddx < 2 then adjustment * 0.95 else adjustment)
      in max 0.8 (min 1.2 adjustment))"

text \<open>
  The tiers of \<open>getDifficultyRecommendation\<close>, in the order of the object literal; the
  \<open>suggestion\<close> and \<open>focus\<close> texts (Chinese) are left out.
\<close>

record tierConfig =
  score_range :: "real \<times> real"
  timeAllocation :: string
  supportLevel :: string

definition recommendations :: "(string \<times> tierConfig) list" where
  "recommendations =
     [(''low'', \<lparr>score_range = (0, 0.3), timeAllocation = ''extended'', supportLevel = ''high''\<rparr>),
      (''moderate'',
         \<lparr>score_range = (0.3, 0.6), timeAllocation = ''standard'', supportLevel = ''moderate''\<rparr>),
      (''challenging'',
         \<lparr>score_range = (0.6, 0.8), timeAllocation = ''standard'', supportLevel = ''minimal''\<rparr>),
      (''advanced'',
         \<lparr>score_range = (0.8, 1.0), timeAllocation = ''compressed'', supportLevel = ''minimal''\<rparr>)]"

definition appropriateMap :: "string \<rightharpoonup> string list" where
  "appropriateMap = map_of
     [(''UGY'', [''low'', ''moderate'']),
      (''PGY1'', [''low'', ''moderate'', ''challenging'']),
      (''PGY2'', [''moderate'', ''challenging'']),
      (''R1'', [''moderate'', ''challenging'']),
      (''R2'', [''challenging'', ''advanced'']),
      (''R3'', [''challenging'', ''advanced'']),
      (''R4'', [''advanced'']),
      (''R5'', [''advanced''])]"

definition isGradeAppropriate :: "string \<Rightarrow> string \<Rightarrow> bool" where
  "isGradeAppropriate difficultyLevel grade =
     (case appropriateMap grade of None \<Rightarrow> False | Some ls \<Rightarrow> difficultyLevel \<in> set ls)"

text \<open>
  The returned recommendation. The fall-through \<open>return recommendations.moderate\<close> has
  neither a \<open>level\<close> nor a \<open>gradeAppropriate\<close> property, hence the options.
\<close>

record recommendation =
  rec_level :: "string option"
  rec_config :: tierConfig
  gradeAppropriate :: "bool option"

definition inRange :: "real \<Rightarrow> string \<times> tierConfig \<Rightarrow> bool" where
  "inRange score entry =
     (score \<ge> fst (score_range (snd entry)) \<and> score \<le> snd (score_range (snd entry)))"

definition getDifficultyRecommendation :: "real \<Rightarrow> string \<Rightarrow> recommendation" where
  "getDifficultyRecommendation score grade =
     (case find (inRange score) recommendations of
        Some entry \<Rightarrow>
          \<lparr>rec_level = Some (fst entry), rec_config = snd entry,
           gradeAppropriate = Some (isGradeAppropriate (fst entry) grade)\<rparr>
      | None \<Rightarrow>
          \<lparr>rec_level = None,
           rec_config = \<lparr>score_range = (0.3, 0.6), timeAllocation = ''standard'',
                         supportLevel = ''moderate''\<rparr>,
           gradeAppropriate = None\<rparr>)"

record difficultyResult =
  difficultyScore :: real
  difficultyLevel :: int
  recommendation :: recommendation

text \<open>
  Steps 1 to 6 of \<open>calculateDynamicDifficulty\<close>: the running \<open>difficultyScore\<close> before
  the clamp.
\<close>

definition runningScore :: "gradeInfo \<Rightarrow> difficultyParams \<Rightarrow> real" where
  "runningScore gradeInfo p =
     (let score = gi_complexity gradeInfo;
          score = (case specialty p of
                     None \<Rightarrow> score
                   | Some s \<Rightarrow>
                       (case specialtyModifiers s of
                          None \<Rightarrow> score
                        | Some mods \<Rightarrow> score * (sum_list mods / real (length mods))));
          score = (case contentTypeDifficulty (contentType p) of
                     None \<Rightarrow> score
                   | Some contentMod \<Rightarrow> (score + base contentMod) / 2);
          normalizedBaseDifficulty = baseDifficulty p / 5.0;
          score = (score + normalizedBaseDifficulty) / 2;
          score = (case userHistory p of
                     None \<Rightarrow> score
                   | Some h \<Rightarrow> score * calculateHistoryAdjustment h);
          score = (case knowledgeContext p of
                     None \<Rightarrow> score
                   | Some k \<Rightarrow> score * calculateContextAdjustment k)
      in score)"

text \<open>The clamp \<open>Math.max(0.1, Math.min(1.0, difficultyScore))\<close>.\<close>

definition clampedScore :: "gradeInfo \<Rightarrow> difficultyParams \<Rightarrow> real" where
  "clampedScore gradeInfo p = max 0.1 (min 1.0 (runningScore gradeInfo p))"

definition calculateDynamicDifficulty :: "difficultyParams \<Rightarrow> error + difficultyResult" where
  "calculateDynamicDifficulty p =
     (case gradeDifficultyMap (gradeLevel p) of
        None \<Rightarrow> Inl (UnknownGrade (gradeLevel p))
      | Some gradeInfo \<Rightarrow>
          (let score = clampedScore gradeInfo p;
               finalDifficultyLevel = Math_ceil (score * 5)
           in Inr \<lparr>difficultyScore = toFixed3 score,
                   difficultyLevel = finalDifficultyLevel,
                   recommendation = getDifficultyRecommendation score (gradeLevel p)\<rparr>))"

subsection \<open>Inputs used below\<close>

text \<open>Grade UGY, content type disease, base difficulty 1, nothing else.\<close>

definition scenarioUGY :: difficultyParams where
  "scenarioUGY =
     \<lparr>gradeLevel = ''UGY'', specialty = None, contentType = ''disease'', baseDifficulty = 1,
      userHistory = None, knowledgeContext = None\<rparr>"




definition tierOf :: "error + difficultyResult \<Rightarrow> string option" where
  "tierOf res = (case res of Inl e \<Rightarrow> None | Inr r \<Rightarrow> rec_level (recommendation r))"

subsection \<open>Bounds of the difficulty profile\<close>









subsection \<open>The scenario of grade UGY\<close>

text \<open>
  Claim C7, as amended. For grade UGY, content type disease and base difficulty 1 the
  score is \<open>((0.2 + 0.7) / 2 + 1 / 5) / 2 = 0.325\<close>, which lies in the range of the tier
  \<open>moderate\<close> and not in that of \<open>low\<close>; the tier is \<open>moderate\<close> and \<open>gradeAppropriate\<close>
  is true.
\<close>

theorem ugy_disease_scenario:
  "calculateDynamicDifficulty scenarioUGY =
     Inr \<lparr>difficultyScore = 0.325, difficultyLevel = 2,
          recommendation =
            \<lparr>rec_level = Some ''moderate'',
             rec_config = \<lparr>score_range = (0.3, 0.6), timeAllocation = ''standard'',
                           supportLevel = ''moderate''\<rparr>,
             gradeAppropriate = Some True\<rparr>\<rparr>"
  by code_simp

text \<open>Claim C7 as stated fails: the tier of the scenario is not \<open>low\<close>.\<close>

theorem ugy_disease_tier_not_low:
  "tierOf (calculateDynamicDifficulty scenarioUGY) \<noteq> Some ''low''"
  by code_simp

section \<open>Model gateway (\<open>src/services/aiService.js\<close>)\<close>

record modelConfig =
  service :: string
  maxTokens :: nat
  temperature :: real
  capabilities :: "string list"

definition modelConfigs :: "string \<rightharpoonup> modelConfig" where
  "modelConfigs = map_of
     [(''gpt-4'',
         \<lparr>service = ''openai'', maxTokens = 4000, temperature = 0.7,
          capabilities = [''lesson_generation'', ''content_review'', ''difficulty_assessment'']\<rparr>),
      (''gpt-3.5-turbo'',
         \<lparr>service = ''openai'', maxTokens = 3000, temperature = 0.6,
          capabilities = [''lesson_generation'', ''content_review'']\<rparr>),
      (''claude-3-sonnet'',
         \<lparr>service = ''claude'', maxTokens = 4000, temperature = 0.7,
          capabilities = [''lesson_generation'', ''content_review'', ''medical_validation'']\<rparr>),
      (''claude-3-haiku'',
         \<lparr>service = ''claude'', maxTokens = 2000, temperature = 0.6,
          capabilities = [''content_review'', ''difficulty_assessment'']\<rparr>)]"

definition getFailoverModel :: "string \<Rightarrow> string option" where
  "getFailoverModel primaryModel = map_of
     [(''gpt-4'', ''gpt-3.5-turbo''),
      (''claude-3-sonnet'', ''claude-3-haiku''),
      (''gpt-3.5-turbo'', ''claude-3-haiku''),
      (''claude-3-haiku'', ''gpt-3.5-turbo'')] primaryModel"

text \<open>
  The options of \<open>callAI\<close>. \<open>isFailover\<close> is the source's \<open>_isFailover\<close> (a name
  cannot start with an underscore here).
\<close>

record aiOptions =
  useFailover :: bool
  isFailover :: bool
  systemPrompt :: "string option"
  opt_maxTokens :: "nat option"
  opt_temperature :: "real option"

text \<open>The response of \<open>callAI\<close>, without the usage, the model name and the duration.\<close>

record aiResponse =
  resp_content :: string
  resp_service :: string

text \<open>
  What lies outside the service: the environment flag \<open>MOCK_AI_RESPONSES\<close>, the text of
  a mock response (it depends on \<open>Math.random\<close>), and the providers. \<open>provider n service
  model prompt options\<close> is the outcome of the provider call made when \<open>n\<close> provider
  calls went before it, so a retry may meet another outcome than the first call.
\<close>

record aiEnv =
  mockMode :: bool
  mockContent :: "string \<Rightarrow> string \<Rightarrow> string"
  provider :: "nat \<Rightarrow> string \<Rightarrow> string \<Rightarrow> string \<Rightarrow> aiOptions \<Rightarrow> error + string"

definition generateMockResponse :: "aiEnv \<Rightarrow> string \<Rightarrow> string \<Rightarrow> aiResponse" where
  "generateMockResponse env model prompt =
     \<lparr>resp_content = mockContent env model prompt, resp_service = ''mock''\<rparr>"

text \<open>
  The \<open>try\<close> block of \<open>callAI\<close>, with \<open>callOpenAI\<close> and \<open>callClaude\<close>. The second
  component is the list of the models on which a provider was called, in order.
\<close>

definition attemptCall ::
  "aiEnv \<Rightarrow> string \<Rightarrow> string \<Rightarrow> aiOptions \<Rightarrow> string list \<Rightarrow> (error + aiResponse) \<times> string list" where
  "attemptCall env model prompt opts calls =
     (case modelConfigs model of
        None \<Rightarrow> (Inl (UnknownModel model), calls)
      | Some config \<Rightarrow>
          if service config = ''openai'' \<or> service config = ''claude'' then
            (case provider env (length calls) (service config) model prompt opts of
               Inl e \<Rightarrow> (Inl e, calls @ [model])
             | Inr text \<Rightarrow>
                 (Inr \<lparr>resp_content = text, resp_service = service config\<rparr>,
                  calls @ [model]))
          else (Inl (UnsupportedService (service config)), calls))"

text \<open>
  \<open>callAI\<close> with its \<open>catch\<close> block: the failover is the recursive call. It terminates
  because the recursive call carries \<open>useFailover = false\<close> and \<open>_isFailover = true\<close>.
\<close>

function callAI ::
  "aiEnv \<Rightarrow> string \<Rightarrow> string \<Rightarrow> aiOptions \<Rightarrow> string list \<Rightarrow> (error + aiResponse) \<times> string list" where
  "callAI env model prompt opts calls =
     (if mockMode env then (Inr (generateMockResponse env model prompt), calls)
      else
        (case attemptCall env model prompt opts calls of
           (Inr result, calls') \<Rightarrow> (Inr result, calls')
         | (Inl e, calls') \<Rightarrow>
             if useFailover opts \<and> \<not> isFailover opts then
               (case getFailoverModel model of
                  Some failoverModel \<Rightarrow>
                    callAI env failoverModel prompt
                      (opts\<lparr>useFailover := False, isFailover := True\<rparr>) calls'
                | None \<Rightarrow> (Inl e, calls'))
             else (Inl e, calls')))"
  by pat_completeness auto
termination
  by (relation "measure (\<lambda>(env, model, prompt, opts, calls).
        if useFailover opts \<and> \<not> isFailover opts then 1 else 0)") auto

subsection \<open>Inputs used below\<close>




subsection \<open>Failover\<close>




declare callAI.simps [simp del]


lemma retry_is_final:
  assumes "\<not> mockMode env" and "\<not> useFailover opts \<or> isFailover opts"
  shows "callAI env m prompt opts calls = attemptCall env m prompt opts calls"
  using assms
  by (subst callAI.simps) (auto split: prod.splits sum.splits)

lemma attemptCall_length:
  "length (snd (attemptCall env m prompt opts calls)) \<le> Suc (length calls)"
  by (simp add: attemptCall_def split: option.splits sum.splits)

text \<open>
  Whatever the model and the options, one call of \<open>callAI\<close> makes at most two provider
  calls: there is no chain of failovers.
\<close>

theorem callAI_at_most_two_calls:
  "length (snd (callAI env m prompt opts calls)) \<le> length calls + 2"
proof (cases "mockMode env")
  case True
  then show ?thesis by (subst callAI.simps) simp
next
  case False
  obtain r calls' where a: "attemptCall env m prompt opts calls = (r, calls')"
    by (cases "attemptCall env m prompt opts calls")
  have l: "length calls' \<le> Suc (length calls)"
    using attemptCall_length[of env m prompt opts calls] a by simp
  show ?thesis
  proof (cases "useFailover opts \<and> \<not> isFailover opts")
    case no: False
    then have "callAI env m prompt opts calls = (r, calls')"
      using False a by (simp add: retry_is_final)
    then show ?thesis using l by simp
  next
    case yes: True
    show ?thesis
    proof (cases r)
      case (Inr x)
      then have "callAI env m prompt opts calls = (r, calls')"
        using False a by (subst callAI.simps) simp
      then show ?thesis using l by simp
    next
      case (Inl e)
      show ?thesis
      proof (cases "getFailoverModel m")
        case None
        then have "callAI env m prompt opts calls = (r, calls')"
          using False a Inl by (subst callAI.simps) simp
        then show ?thesis using l by simp
      next
        case (Some f)
        let ?retry = "opts\<lparr>useFailover := False, isFailover := True\<rparr>"
        have "callAI env m prompt opts calls = callAI env f prompt ?retry calls'"
          using False a Inl Some yes by (subst callAI.simps) simp
        also have "\<dots> = attemptCall env f prompt ?retry calls'"
          using False by (intro retry_is_final) simp_all
        finally show ?thesis
          using attemptCall_length[of env f prompt ?retry calls'] l by simp
      qed
    qed
  qed
qed



section \<open>Generation pipeline (\<open>src/services/lessonGenerator.js\<close>)\<close>

subsection \<open>Parsing and repairing the model's response\<close>

text \<open>
  The value that \<open>JSON.parse\<close> returns. \<open>JSON.parse\<close> itself is a library function: the
  definitions below take it as the parameter \<open>JSON_parse\<close>, \<open>None\<close> standing for its
  \<open>SyntaxError\<close>.
\<close>

datatype json =
    JNull
  | JBool bool
  | JNum real
  | JStr string
  | JArr "json list"
  | JObj "(string \<times> json) list"

text \<open>
  Element 0 of \<open>content.match\<close> for the regular expression "an opening brace, any
  characters (greedy), a closing brace": the text from the first opening brace to the last
  closing brace after it.
\<close>

definition jsonMatch :: "string \<Rightarrow> string option" where
  "jsonMatch content =
     (let fromBrace = dropWhile (\<lambda>c. c \<noteq> CHR ''{'') content;
          toBrace = rev (dropWhile (\<lambda>c. c \<noteq> CHR ''}'') (rev fromBrace))
      in if toBrace = [] then None else Some toBrace)"




definition getField :: "string \<Rightarrow> json \<Rightarrow> json option" where
  "getField k j = (case j of JObj props \<Rightarrow> map_of props k | _ \<Rightarrow> None)"






subsection \<open>Inputs used below\<close>





subsection \<open>Malformed output never throws\<close>







subsection \<open>Rebalancing the section durations\<close>
































section \<open>Validation services (\<open>src/services/medicalValidator.js\<close>, class \<open>MedicalValidator\<close>)\<close>

text \<open>
  A validator's report is read at the shape its prompt asks for: a score (a number, when
  present), for medical accuracy a list of safety issues and a confidence, further
  sub-scores and lists of texts. \<open>vd_error\<close> is the \<open>error\<close> property of the generic default.
  The Chinese texts of the defaults are glossed.
\<close>

record validationData =
  vd_score :: "real option"
  vd_safetyIssues :: "string list option"
  vd_confidence :: "real option"
  vd_error :: "string option"
  vd_subscores :: "(string \<times> real) list"
  vd_texts :: "(string \<times> string list) list"

record validationResult =
  success :: bool
  vr_data :: validationData
  vr_type :: string

definition getDefaultValidationResult :: "string \<Rightarrow> real \<Rightarrow> validationResult" where
  "getDefaultValidationResult type score =
     \<lparr>success = False,
      vr_data =
        (if type = ''medical_accuracy'' then
           \<lparr>vd_score = Some score, vd_safetyIssues = Some [], vd_confidence = Some 0.3,
            vd_error = None, vd_subscores = [],
            vd_texts = [(''errors'', []),
                        (''strengths'', [''Needs manual checking'']),
                        (''improvements'', [''Manual validation is advised''])]\<rparr>
         else if type = ''clinical_relevance'' then
           \<lparr>vd_score = Some score, vd_safetyIssues = None, vd_confidence = None,
            vd_error = None,
            vd_subscores = [(''clinicalRealism'', score), (''practicalUtility'', score),
                            (''comprehensiveness'', score)],
            vd_texts = [(''feedback'', [''Needs expert assessment'']),
                        (''suggestions'', [''Consulting a clinical expert is advised''])]\<rparr>
         else if type = ''pedagogical_quality'' then
           \<lparr>vd_score = Some score, vd_safetyIssues = None, vd_confidence = None,
            vd_error = None,
            vd_subscores = [(''objectiveClarity'', score), (''contentOrganization'', score),
                            (''timeAllocation'', score), (''assessmentQuality'', score),
                            (''engagement'', score)],
            vd_texts = [(''recommendations'', [''Needs assessment by a teaching expert''])]\<rparr>
         else
           \<lparr>vd_score = Some score, vd_safetyIssues = None, vd_confidence = None,
            vd_error = Some ''Validation failed'', vd_subscores = [], vd_texts = []\<rparr>),
      vr_type = type\<rparr>"

text \<open>
  \<open>parseValidationResponse\<close>. \<open>parseReport\<close> stands for \<open>JSON.parse\<close> followed by the reading
  of the report; \<open>None\<close> is its \<open>SyntaxError\<close>. Both the missing block and the failed parse
  end in the \<open>catch\<close> block.
\<close>

definition parseValidationResponse ::
  "(string \<Rightarrow> validationData option) \<Rightarrow> string \<Rightarrow> string \<Rightarrow> validationResult" where
  "parseValidationResponse parseReport content validationType =
     (case jsonMatch content of
        Some block \<Rightarrow>
          (case parseReport block of
             Some parsed \<Rightarrow> \<lparr>success = True, vr_data = parsed, vr_type = validationType\<rparr>
           | None \<Rightarrow> getDefaultValidationResult validationType 0.6)
      | None \<Rightarrow> getDefaultValidationResult validationType 0.6)"

text \<open>
  The three validators. The argument \<open>aiOutcome\<close> is the outcome of the validator's call
  of \<open>aiService.callAI\<close> (on \<open>claude-3-sonnet\<close>, \<open>gpt-4\<close> and \<open>gpt-3.5-turbo\<close>); \<open>Inl\<close> is
  the exception that the validator's \<open>catch\<close> block receives.
\<close>

definition validateMedicalAccuracy ::
  "(string \<Rightarrow> validationData option) \<Rightarrow> error + aiResponse \<Rightarrow> validationResult" where
  "validateMedicalAccuracy parseReport aiOutcome =
     (case aiOutcome of
        Inr aiResponse \<Rightarrow>
          parseValidationResponse parseReport (resp_content aiResponse) ''medical_accuracy''
      | Inl e \<Rightarrow> getDefaultValidationResult ''medical_accuracy'' 0.5)"

definition validateClinicalRelevance ::
  "(string \<Rightarrow> validationData option) \<Rightarrow> error + aiResponse \<Rightarrow> validationResult" where
  "validateClinicalRelevance parseReport aiOutcome =
     (case aiOutcome of
        Inr aiResponse \<Rightarrow>
          parseValidationResponse parseReport (resp_content aiResponse) ''clinical_relevance''
      | Inl e \<Rightarrow> getDefaultValidationResult ''clinical_relevance'' 0.6)"

definition validatePedagogicalQuality ::
  "(string \<Rightarrow> validationData option) \<Rightarrow> error + aiResponse \<Rightarrow> validationResult" where
  "validatePedagogicalQuality parseReport aiOutcome =
     (case aiOutcome of
        Inr aiResponse \<Rightarrow>
          parseValidationResponse parseReport (resp_content aiResponse) ''pedagogical_quality''
      | Inl e \<Rightarrow> getDefaultValidationResult ''pedagogical_quality'' 0.7)"

text \<open>
  \<open>processValidationResult\<close> on a result of \<open>Promise.allSettled\<close>: \<open>Inr\<close> is a fulfilled
  promise with its value, \<open>Inl\<close> a rejected one.
\<close>

definition processValidationResult :: "error + validationResult \<Rightarrow> string \<Rightarrow> validationData" where
  "processValidationResult result type =
     (case result of
        Inr v \<Rightarrow> if success v then vr_data v else vr_data (getDefaultValidationResult type 0.6)
      | Inl reason \<Rightarrow> vr_data (getDefaultValidationResult type 0.6))"

record validation =
  medicalAccuracy :: validationData
  clinicalRelevance :: validationData
  pedagogicalQuality :: validationData

text \<open>\<open>MedicalValidator.calculateOverallScore\<close>: the weighted mean of the scores present.\<close>

definition addWeighted :: "real \<times> real \<Rightarrow> validationData \<times> real \<Rightarrow> real \<times> real" where
  "addWeighted acc entry =
     (case vd_score (fst entry) of
        Some s \<Rightarrow> (fst acc + s * snd entry, snd acc + snd entry)
      | None \<Rightarrow> acc)"

definition MedicalValidator_calculateOverallScore :: "validation \<Rightarrow> real" where
  "MedicalValidator_calculateOverallScore v =
     (let totals = foldl addWeighted (0, 0)
                     [(medicalAccuracy v, 0.5), (clinicalRelevance v, 0.3),
                      (pedagogicalQuality v, 0.2)];
          totalScore = fst totals;
          totalWeight = snd totals
      in if totalWeight > 0 then totalScore / totalWeight else 0.5)"

text \<open>
  The object that \<open>validateMedicalContent\<close> returns, without its recommendations, warnings
  and time stamps. \<open>mv_safetyIssues\<close> is the property \<open>safetyIssues\<close> that the review
  workflow reads from this object; the object literal of \<open>validateMedicalContent\<close> has no
  such property, so it is \<open>None\<close> (\<open>undefined\<close>) there.
\<close>

record medicalValidationResult =
  mv_overallScore :: real
  mv_validation :: validation
  mv_safetyIssues :: "string list option"

definition validateMedicalContent ::
  "(string \<Rightarrow> validationData option) \<Rightarrow> error + aiResponse \<Rightarrow> error + aiResponse
     \<Rightarrow> error + aiResponse \<Rightarrow> medicalValidationResult" where
  "validateMedicalContent parseReport accuracyOutcome relevanceOutcome qualityOutcome =
     (let accuracyResult = Inr (validateMedicalAccuracy parseReport accuracyOutcome);
          relevanceResult = Inr (validateClinicalRelevance parseReport relevanceOutcome);
          qualityResult = Inr (validatePedagogicalQuality parseReport qualityOutcome);
          v = \<lparr>medicalAccuracy = processValidationResult accuracyResult ''accuracy'',
               clinicalRelevance = processValidationResult relevanceResult ''relevance'',
               pedagogicalQuality = processValidationResult qualityResult ''quality''\<rparr>
      in \<lparr>mv_overallScore = MedicalValidator_calculateOverallScore v,
          mv_validation = v,
          mv_safetyIssues = None\<rparr>)"

text \<open>
  For the statements below: the report that a dimension computed, \<open>None\<close> when the
  dimension failed internally (its gateway call threw, its response holds no block between
  braces, or that block does not parse); the report that replaces a failed dimension; a
  report reader that accepts the text \<open>{}\<close> only; a gateway call that answers with a
  given text, and one that throws.
\<close>

definition computedReport ::
  "(string \<Rightarrow> validationData option) \<Rightarrow> error + aiResponse \<Rightarrow> validationData option" where
  "computedReport parseReport aiOutcome =
     (case aiOutcome of
        Inl e \<Rightarrow> None
      | Inr aiResponse \<Rightarrow>
          (case jsonMatch (resp_content aiResponse) of
             None \<Rightarrow> None
           | Some block \<Rightarrow> parseReport block))"

definition degradedReport :: validationData where
  "degradedReport =
     \<lparr>vd_score = Some 0.6, vd_safetyIssues = None, vd_confidence = None,
      vd_error = Some ''Validation failed'', vd_subscores = [], vd_texts = []\<rparr>"

definition emptyReport :: validationData where
  "emptyReport =
     \<lparr>vd_score = None, vd_safetyIssues = None, vd_confidence = None, vd_error = None,
      vd_subscores = [], vd_texts = []\<rparr>"

definition toyReport :: "string \<Rightarrow> validationData option" where
  "toyReport s = (if s = ''{}'' then Some emptyReport else None)"

definition answer :: "string \<Rightarrow> error + aiResponse" where
  "answer text = Inr \<lparr>resp_content = text, resp_service = ''s''\<rparr>"

definition providerDown :: "error + aiResponse" where
  "providerDown = Inl (ProviderError ''service unavailable'')"

subsection \<open>Degraded dimensions\<close>

lemma processed_dimension:
  assumes "type \<noteq> ''medical_accuracy''" and "type \<noteq> ''clinical_relevance''"
    and "type \<noteq> ''pedagogical_quality''"
    and "result = (case aiOutcome of
                     Inr aiResponse \<Rightarrow> parseValidationResponse parseReport (resp_content aiResponse) vt
                   | Inl e \<Rightarrow> getDefaultValidationResult vt d)"
  shows "processValidationResult (Inr result) type =
           (case computedReport parseReport aiOutcome of
              Some parsed \<Rightarrow> parsed
            | None \<Rightarrow> degradedReport)"
proof (cases aiOutcome)
  case (Inl e)
  then show ?thesis
    using assms
    by (simp add: processValidationResult_def getDefaultValidationResult_def
        degradedReport_def computedReport_def)
next
  case (Inr aiResponse)
  show ?thesis
  proof (cases "computedReport parseReport aiOutcome")
    case None
    then have "result = getDefaultValidationResult vt 0.6"
      using Inr assms(4)
      by (auto simp: parseValidationResponse_def computedReport_def split: option.splits)
    then show ?thesis
      using None assms(1-3)
      by (simp add: processValidationResult_def getDefaultValidationResult_def
          degradedReport_def)
  next
    case (Some parsed)
    then have "result = \<lparr>success = True, vr_data = parsed, vr_type = vt\<rparr>"
      using Inr assms(4)
      by (auto simp: parseValidationResponse_def computedReport_def split: option.splits)
    then show ?thesis
      using Some by (simp add: processValidationResult_def)
  qed
qed

lemma combined_entries:
  "medicalAccuracy (mv_validation (validateMedicalContent parseReport a r q)) =
     (case computedReport parseReport a of Some parsed \<Rightarrow> parsed | None \<Rightarrow> degradedReport)
   \<and> clinicalRelevance (mv_validation (validateMedicalContent parseReport a r q)) =
     (case computedReport parseReport r of Some parsed \<Rightarrow> parsed | None \<Rightarrow> degradedReport)
   \<and> pedagogicalQuality (mv_validation (validateMedicalContent parseReport a r q)) =
     (case computedReport parseReport q of Some parsed \<Rightarrow> parsed | None \<Rightarrow> degradedReport)"
proof -
  have acc: "processValidationResult (Inr (validateMedicalAccuracy parseReport a)) ''accuracy'' =
               (case computedReport parseReport a of Some parsed \<Rightarrow> parsed | None \<Rightarrow> degradedReport)"
    by (rule processed_dimension[where vt = "''medical_accuracy''" and d = "0.5"])
       (simp_all add: validateMedicalAccuracy_def)
  have rel: "processValidationResult (Inr (validateClinicalRelevance parseReport r)) ''relevance'' =
               (case computedReport parseReport r of Some parsed \<Rightarrow> parsed | None \<Rightarrow> degradedReport)"
    by (rule processed_dimension[where vt = "''clinical_relevance''" and d = "0.6"])
       (simp_all add: validateClinicalRelevance_def)
  have ped: "processValidationResult (Inr (validatePedagogicalQuality parseReport q)) ''quality'' =
               (case computedReport parseReport q of Some parsed \<Rightarrow> parsed | None \<Rightarrow> degradedReport)"
    by (rule processed_dimension[where vt = "''pedagogical_quality''" and d = "0.7"])
       (simp_all add: validatePedagogicalQuality_def)
  show ?thesis
    using acc rel ped
    by (simp add: validateMedicalContent_def Let_def)
qed

text \<open>
  Claim C5, as amended. In the combined report, the entry of each dimension is the report
  that the dimension computed, and \<open>degradedReport\<close> (score 0.6, an error text, no
  confidence) when the dimension failed internally. The entry of a dimension depends on
  that dimension's outcome alone, so a failure of one dimension leaves the entries of the
  other two as they computed them; nothing is thrown.
\<close>

theorem failed_dimension_degrades_alone:
  "medicalAccuracy (mv_validation (validateMedicalContent parseReport a r q)) =
     (case computedReport parseReport a of Some parsed \<Rightarrow> parsed | None \<Rightarrow> degradedReport)
   \<and> clinicalRelevance (mv_validation (validateMedicalContent parseReport a r q)) =
     (case computedReport parseReport r of Some parsed \<Rightarrow> parsed | None \<Rightarrow> degradedReport)
   \<and> pedagogicalQuality (mv_validation (validateMedicalContent parseReport a r q)) =
     (case computedReport parseReport q of Some parsed \<Rightarrow> parsed | None \<Rightarrow> degradedReport)
   \<and> vd_score degradedReport = Some 0.6"
  using combined_entries[of parseReport a r q]
  by (simp add: degradedReport_def)

text \<open>
  Claim C5 as stated fails: when the providers of clinical relevance and of pedagogical
  quality are down, the entries of these dimensions carry no confidence at all, lowered
  or not; their score is 0.6.
\<close>

theorem degraded_dimension_has_no_confidence:
  "vd_confidence (clinicalRelevance (mv_validation
      (validateMedicalContent toyReport (answer ''{}'') providerDown providerDown))) = None
   \<and> vd_confidence (pedagogicalQuality (mv_validation
      (validateMedicalContent toyReport (answer ''{}'') providerDown providerDown))) = None
   \<and> vd_score (clinicalRelevance (mv_validation
      (validateMedicalContent toyReport (answer ''{}'') providerDown providerDown))) = Some 0.6"
  by code_simp

section \<open>Quality assessment (\<open>lessonQualityAssessment.js\<close>, in \<open>src/unnamed/part_008\<close>)\<close>

text \<open>
  The weights of the four categories. For each category, \<open>assessCategory\<close> asks the
  gateway and reads a score from the answer with \<open>parseAIAssessment\<close>; its argument here
  is the outcome of that: \<open>Inl\<close> when the call threw or the answer did not parse (both end
  in the default score 0.6), else the \<open>score\<close> property of the answer.
\<close>

definition assessmentCriteria :: "(string \<times> real) list" where
  "assessmentCriteria =
     [(''structure'', 0.3), (''content'', 0.4), (''pedagogy'', 0.2), (''gradeAlignment'', 0.1)]"

record categoryResult =
  cr_score :: real
  cr_weightedScore :: real

definition assessCategory :: "error + real option \<Rightarrow> real \<Rightarrow> categoryResult" where
  "assessCategory assessed weight =
     (let score = (case assessed of
                     Inl e \<Rightarrow> 0.6
                   | Inr parsedScore \<Rightarrow>
                       max 0 (min 1 (case parsedScore of
                                       None \<Rightarrow> 0.6
                                     | Some s \<Rightarrow> if s = 0 then 0.6 else s)))
      in \<lparr>cr_score = score, cr_weightedScore = score * weight\<rparr>)"

text \<open>\<open>getQualityGrade\<close>; the Chinese word in brackets is glossed.\<close>

definition getQualityGrade :: "real \<Rightarrow> string" where
  "getQualityGrade score =
     (if score \<ge> 0.9 then ''A (excellent)''
      else if score \<ge> 0.8 then ''B (good)''
      else if score \<ge> 0.7 then ''C (pass)''
      else if score \<ge> 0.6 then ''D (to be improved)''
      else ''F (fail)'')"

record qualityAssessment =
  qa_overallScore :: int
  qa_grade :: string

text \<open>
  \<open>assessLessonQuality\<close>, without the texts it asks the gateway for; \<open>assessed\<close> gives the
  outcome of each category by its name.
\<close>

definition assessLessonQuality :: "(string \<Rightarrow> error + real option) \<Rightarrow> qualityAssessment" where
  "assessLessonQuality assessed =
     (let results = map (\<lambda>(category, weight). assessCategory (assessed category) weight)
                        assessmentCriteria;
          totalWeightedScore = foldl (\<lambda>total result. total + cr_weightedScore result) 0 results
      in \<lparr>qa_overallScore = Math_round (totalWeightedScore * 100),
          qa_grade = getQualityGrade totalWeightedScore\<rparr>)"

section \<open>Review workflow (\<open>src/services/medicalValidator.js\<close>, class \<open>ReviewWorkflow\<close>)\<close>

subsection \<open>Stages, criteria and the review record\<close>

definition PENDING :: string where "PENDING = ''pending''"
definition AUTO_REVIEW :: string where "AUTO_REVIEW = ''auto_review''"
definition HUMAN_REVIEW :: string where "HUMAN_REVIEW = ''human_review''"
definition APPROVED :: string where "APPROVED = ''approved''"
definition REJECTED :: string where "REJECTED = ''rejected''"
definition REVISION_REQUIRED :: string where "REVISION_REQUIRED = ''revision_required''"

text \<open>\<open>autoReviewCriteria\<close>: the bounds that \<open>processAutoReviewResult\<close> reads.\<close>

record approveCriteria =
  minOverallScore :: real
  minMedicalAccuracy :: real
  maxSafetyIssues :: nat

record rejectCriteria =
  maxOverallScore :: real
  maxMedicalAccuracy :: real
  minSafetyIssues :: nat

definition autoApprove :: approveCriteria where
  "autoApprove = \<lparr>minOverallScore = 85, minMedicalAccuracy = 0.8, maxSafetyIssues = 0\<rparr>"

definition autoReject :: rejectCriteria where
  "autoReject = \<lparr>maxOverallScore = 50, maxMedicalAccuracy = 0.5, minSafetyIssues = 3\<rparr>"

text \<open>
  A row of the table \<open>lesson_reviews\<close>, without its time stamps, and the table with the
  next value of its serial \<open>id\<close>. The storage is taken to work: a query does not throw.
\<close>

record reviewRecord =
  rr_lesson_id :: string
  rr_reviewer_type :: string
  rr_status :: string
  rr_auto_review_results :: "(medicalValidationResult \<times> qualityAssessment) option"
  rr_auto_review_error :: "error option"
  rr_final_decision :: "string option"
  rr_human_reviewer_id :: "string option"
  rr_human_review_decision :: "string option"
  rr_human_review_comments :: "string option"
  rr_revision_notes :: "string option"

record database =
  rows :: "(nat \<times> reviewRecord) list"
  nextId :: nat

definition findReview :: "database \<Rightarrow> nat \<Rightarrow> reviewRecord option" where
  "findReview db reviewId = map_of (rows db) reviewId"

definition createReviewRecord :: "database \<Rightarrow> string \<Rightarrow> database \<times> nat" where
  "createReviewRecord db lessonId =
     (db\<lparr>rows := rows db @
            [(nextId db,
              \<lparr>rr_lesson_id = lessonId, rr_reviewer_type = ''ai_auto'', rr_status = PENDING,
               rr_auto_review_results = None, rr_auto_review_error = None,
               rr_final_decision = None, rr_human_reviewer_id = None,
               rr_human_review_decision = None, rr_human_review_comments = None,
               rr_revision_notes = None\<rparr>)],
         nextId := Suc (nextId db)\<rparr>,
      nextId db)"

text \<open>\<open>UPDATE lesson_reviews SET ... WHERE id = $1\<close>: every row with that id is updated.\<close>

definition updateReviewRecord ::
  "database \<Rightarrow> nat \<Rightarrow> (reviewRecord \<Rightarrow> reviewRecord) \<Rightarrow> database" where
  "updateReviewRecord db reviewId updates =
     db\<lparr>rows := map (\<lambda>row. if fst row = reviewId then (fst row, updates (snd row)) else row)
                      (rows db)\<rparr>"

definition saveAutoReviewResults ::
  "database \<Rightarrow> nat \<Rightarrow> medicalValidationResult \<times> qualityAssessment \<Rightarrow> database" where
  "saveAutoReviewResults db reviewId results =
     updateReviewRecord db reviewId (\<lambda>r. r\<lparr>rr_auto_review_results := Some results\<rparr>)"

subsection \<open>The automated review\<close>

record autoReviewResult =
  ar_medicalValidation :: medicalValidationResult
  ar_qualityAssessment :: qualityAssessment
  ar_overallScore :: int

text \<open>\<open>ReviewWorkflow.calculateOverallScore\<close>.\<close>

definition ReviewWorkflow_calculateOverallScore ::
  "medicalValidationResult \<Rightarrow> qualityAssessment \<Rightarrow> int" where
  "ReviewWorkflow_calculateOverallScore medicalValidation qualityAssessment =
     (let medicalWeight = 0.6;
          qualityWeight = 0.4;
          medicalScore = mv_overallScore medicalValidation;
          qualityScore = real_of_int (qa_overallScore qualityAssessment)
      in Math_round (medicalScore * medicalWeight + qualityScore * qualityWeight))"

text \<open>
  \<open>Promise.all\<close> of the two assessments: both values, or the rejection (of the first, when
  both reject).
\<close>

definition promiseAll :: "error + 'a \<Rightarrow> error + 'b \<Rightarrow> error + 'a \<times> 'b" where
  "promiseAll first second =
     (case first of
        Inl e \<Rightarrow> Inl e
      | Inr a \<Rightarrow> (case second of Inl e \<Rightarrow> Inl e | Inr b \<Rightarrow> Inr (a, b)))"

text \<open>
  \<open>performAutoReview\<close>. Its arguments \<open>medicalOutcome\<close> and \<open>qualityOutcome\<close> are the outcomes
  of \<open>validateMedicalContent\<close> and \<open>assessLessonQuality\<close>. The \<open>catch\<close> block marks the
  record and throws the error again.
\<close>

definition performAutoReview ::
  "database \<Rightarrow> error + medicalValidationResult \<Rightarrow> error + qualityAssessment \<Rightarrow> nat
     \<Rightarrow> database \<times> (error + autoReviewResult)" where
  "performAutoReview db medicalOutcome qualityOutcome reviewId =
     (let db1 = updateReviewRecord db reviewId (\<lambda>r. r\<lparr>rr_status := AUTO_REVIEW\<rparr>)
      in case promiseAll medicalOutcome qualityOutcome of
           Inr (medicalValidation, qualityAssessment) \<Rightarrow>
             (saveAutoReviewResults db1 reviewId (medicalValidation, qualityAssessment),
              Inr \<lparr>ar_medicalValidation = medicalValidation,
                   ar_qualityAssessment = qualityAssessment,
                   ar_overallScore =
                     ReviewWorkflow_calculateOverallScore medicalValidation qualityAssessment\<rparr>)
         | Inl e \<Rightarrow>
             (updateReviewRecord db1 reviewId
                (\<lambda>r. r\<lparr>rr_status := HUMAN_REVIEW, rr_auto_review_error := Some e\<rparr>),
              Inl e))"

text \<open>
  The result of \<open>processAutoReviewResult\<close>, without its summary, recommendations and next
  steps (texts). The reasons are Chinese sentences, glossed.
\<close>

record reviewDecision =
  status :: string
  decision :: string
  humanReviewRequired :: bool
  reasoning :: "string list"
  scores_overall :: int
  scores_medical :: int
  scores_quality :: int

definition startsWith :: "string \<Rightarrow> string \<Rightarrow> bool" where
  "startsWith s p = (take (length p) s = p)"

text \<open>\<open>medicalValidation.safetyIssues?.length || 0\<close>.\<close>

definition safetyIssuesCount :: "medicalValidationResult \<Rightarrow> nat" where
  "safetyIssuesCount medicalValidation =
     (case mv_safetyIssues medicalValidation of None \<Rightarrow> 0 | Some issues \<Rightarrow> length issues)"

definition processAutoReviewResult :: "autoReviewResult \<Rightarrow> reviewDecision" where
  "processAutoReviewResult autoReviewResult =
     (let overallScore = ar_overallScore autoReviewResult;
          medicalValidation = ar_medicalValidation autoReviewResult;
          qualityAssessment = ar_qualityAssessment autoReviewResult;
          count = safetyIssuesCount medicalValidation;
          medicalAccuracy = mv_overallScore medicalValidation / 100;
          scored = (\<lambda>st d h rs.
            \<lparr>status = st, decision = d, humanReviewRequired = h, reasoning = rs,
             scores_overall = overallScore,
             scores_medical = Math_round (medicalAccuracy * 100),
             scores_quality = qa_overallScore qualityAssessment\<rparr>)
      in if real_of_int overallScore \<le> maxOverallScore autoReject
            \<or> medicalAccuracy \<le> maxMedicalAccuracy autoReject
            \<or> count \<ge> minSafetyIssues autoReject
            \<or> startsWith (qa_grade qualityAssessment) ''F''
         then scored REJECTED ''REJECT'' False
                ([''Below the minimum quality standard'']
                 @ (if count \<ge> minSafetyIssues autoReject
                    then [''Major medical safety problems''] else []))
         else if real_of_int overallScore \<ge> minOverallScore autoApprove
            \<and> medicalAccuracy \<ge> minMedicalAccuracy autoApprove
            \<and> count \<le> maxSafetyIssues autoApprove
            \<and> \<not> startsWith (qa_grade qualityAssessment) ''D''
            \<and> \<not> startsWith (qa_grade qualityAssessment) ''F''
         then scored APPROVED ''APPROVE'' False [''Meets the standard for automatic approval'']
         else scored HUMAN_REVIEW ''HUMAN_REVIEW_REQUIRED'' True
                ([''Needs further assessment by an expert'']
                 @ (if count > 0
                    then [''Medical problems that need professional judgement''] else [])))"

text \<open>
  \<open>startReviewProcess\<close> and what it returns (without the texts). Its \<open>catch\<close> block wraps
  the error in a new one, \<open>Wrapped\<close> with the gloss of the Chinese prefix, and throws it.
\<close>

record reviewOutcome =
  ro_reviewId :: nat
  ro_status :: string
  ro_decision :: string
  ro_autoReview :: autoReviewResult
  ro_humanReviewRequired :: bool

definition startReviewProcess ::
  "database \<Rightarrow> string \<Rightarrow> error + medicalValidationResult \<Rightarrow> error + qualityAssessment
     \<Rightarrow> database \<times> (error + reviewOutcome)" where
  "startReviewProcess db lessonId medicalOutcome qualityOutcome =
     (let created = createReviewRecord db lessonId;
          reviewId = snd created;
          reviewed = performAutoReview (fst created) medicalOutcome qualityOutcome reviewId
      in case snd reviewed of
           Inl e \<Rightarrow> (fst reviewed, Inl (Wrapped ''Review process failed'' e))
         | Inr autoReviewResult \<Rightarrow>
             (let finalResult = processAutoReviewResult autoReviewResult
              in (updateReviewRecord (fst reviewed) reviewId
                    (\<lambda>r. r\<lparr>rr_status := status finalResult,
                            rr_final_decision := Some (decision finalResult)\<rparr>),
                  Inr \<lparr>ro_reviewId = reviewId, ro_status = status finalResult,
                       ro_decision = decision finalResult, ro_autoReview = autoReviewResult,
                       ro_humanReviewRequired = humanReviewRequired finalResult\<rparr>)))"

subsection \<open>The human review\<close>

text \<open>
  \<open>decision.toLowerCase()\<close> on the letters A to Z. (On letters outside ASCII the source's
  function changes more; no such letter is lowered to a letter of the three decisions.)
\<close>

definition toLowerChar :: "char \<Rightarrow> char" where
  "toLowerChar c =
     (case map_of (zip ''ABCDEFGHIJKLMNOPQRSTUVWXYZ'' ''abcdefghijklmnopqrstuvwxyz'') c of
        Some l \<Rightarrow> l
      | None \<Rightarrow> c)"

definition toLowerCase :: "string \<Rightarrow> string" where
  "toLowerCase s = map toLowerChar s"

record humanReviewData =
  hr_decision :: string
  hr_comments :: string
  hr_reviewer_id :: string
  hr_revision_notes :: "string option"

record humanReviewOutcome =
  ho_success :: bool
  ho_finalStatus :: string
  ho_decision :: string
  ho_comments :: string

text \<open>The \<open>switch\<close> of \<open>processHumanReviewResult\<close>; its \<open>default\<close> throws.\<close>

definition finalStatusOf :: "string \<Rightarrow> error + string" where
  "finalStatusOf dec =
     (if toLowerCase dec = ''approve'' then Inr APPROVED
      else if toLowerCase dec = ''reject'' then Inr REJECTED
      else if toLowerCase dec = ''revision'' then Inr REVISION_REQUIRED
      else Inl (InvalidDecision dec))"

definition processHumanReviewResult ::
  "database \<Rightarrow> nat \<Rightarrow> humanReviewData \<Rightarrow> database \<times> (error + humanReviewOutcome)" where
  "processHumanReviewResult db reviewId humanReviewData =
     (case finalStatusOf (hr_decision humanReviewData) of
        Inl e \<Rightarrow> (db, Inl (Wrapped ''Processing the human review result failed'' e))
      | Inr finalStatus \<Rightarrow>
          (updateReviewRecord db reviewId
             (\<lambda>r. r\<lparr>rr_status := finalStatus,
                     rr_human_reviewer_id := Some (hr_reviewer_id humanReviewData),
                     rr_human_review_decision := Some (hr_decision humanReviewData),
                     rr_human_review_comments := Some (hr_comments humanReviewData),
                     rr_revision_notes :=
                       (case hr_revision_notes humanReviewData of
                          None \<Rightarrow> None
                        | Some notes \<Rightarrow> if notes = [] then None else Some notes)\<rparr>),
           Inr \<lparr>ho_success = True, ho_finalStatus = finalStatus,
                ho_decision = hr_decision humanReviewData,
                ho_comments = hr_comments humanReviewData\<rparr>))"

subsection \<open>Inputs used below\<close>

text \<open>
  A reader of reports that knows two answers: one on the scale from 0 to 1 that the
  validators' prompts ask for, one on a scale from 0 to 100; both report three safety
  issues. The quality assessment gives 0.95 in every category (95 points, grade A).
\<close>

definition unitReport :: validationData where
  "unitReport =
     \<lparr>vd_score = Some 0.9,
      vd_safetyIssues = Some [''wrong dose'', ''missed allergy'', ''no consent''],
      vd_confidence = Some 0.9, vd_error = None, vd_subscores = [], vd_texts = []\<rparr>"

definition percentReport :: validationData where
  "percentReport = unitReport\<lparr>vd_score := Some 90\<rparr>"

definition cannedReports :: "string \<Rightarrow> validationData option" where
  "cannedReports = map_of [(''{unit}'', unitReport), (''{percent}'', percentReport)]"

definition unitValidation :: medicalValidationResult where
  "unitValidation =
     validateMedicalContent cannedReports (answer ''{unit}'') (answer ''{unit}'') (answer ''{unit}'')"

definition percentValidation :: medicalValidationResult where
  "percentValidation =
     validateMedicalContent cannedReports (answer ''{percent}'') (answer ''{percent}'')
       (answer ''{percent}'')"

definition goodQuality :: qualityAssessment where
  "goodQuality = assessLessonQuality (\<lambda>category. Inr (Some 0.95))"


definition validationCrash :: "error + medicalValidationResult" where
  "validationCrash = Inl (TypeError ''title of undefined'')"

definition emptyDb :: database where
  "emptyDb = \<lparr>rows = [], nextId = 1\<rparr>"

definition reviewOf ::
  "medicalValidationResult \<Rightarrow> qualityAssessment \<Rightarrow> error + reviewOutcome" where
  "reviewOf m q = snd (startReviewProcess emptyDb ''lesson-1'' (Inr m) (Inr q))"

definition decisionOf :: "error + reviewOutcome \<Rightarrow> string option" where
  "decisionOf res = (case res of Inl e \<Rightarrow> None | Inr out \<Rightarrow> Some (ro_decision out))"

definition overallOf :: "error + reviewOutcome \<Rightarrow> int option" where
  "overallOf res =
     (case res of Inl e \<Rightarrow> None | Inr out \<Rightarrow> Some (ar_overallScore (ro_autoReview out)))"

definition reasonsOf :: "error + reviewOutcome \<Rightarrow> string list" where
  "reasonsOf res =
     (case res of
        Inl e \<Rightarrow> []
      | Inr out \<Rightarrow> reasoning (processAutoReviewResult (ro_autoReview out)))"

definition reportedSafetyIssues :: "medicalValidationResult \<Rightarrow> nat" where
  "reportedSafetyIssues m =
     (case vd_safetyIssues (medicalAccuracy (mv_validation m)) of
        None \<Rightarrow> 0
      | Some issues \<Rightarrow> length issues)"

definition pendingReview :: reviewRecord where
  "pendingReview =
     \<lparr>rr_lesson_id = ''lesson-1'', rr_reviewer_type = ''ai_auto'', rr_status = HUMAN_REVIEW,
      rr_auto_review_results = None, rr_auto_review_error = None, rr_final_decision = None,
      rr_human_reviewer_id = None, rr_human_review_decision = None,
      rr_human_review_comments = None, rr_revision_notes = None\<rparr>"

definition oneReviewDb :: database where
  "oneReviewDb = \<lparr>rows = [(1, pendingReview)], nextId = 2\<rparr>"

definition shoutedApproval :: humanReviewData where
  "shoutedApproval =
     \<lparr>hr_decision = ''APPROVE'', hr_comments = ''fine'', hr_reviewer_id = ''u7'',
      hr_revision_notes = None\<rparr>"

definition hesitation :: humanReviewData where
  "hesitation =
     \<lparr>hr_decision = ''maybe'', hr_comments = ''unsure'', hr_reviewer_id = ''u7'',
      hr_revision_notes = None\<rparr>"

subsection \<open>The review record under updates\<close>

lemma map_of_updated_rows:
  "map_of (map (\<lambda>row. if fst row = reviewId then (fst row, f (snd row)) else row) rs) k =
     (if k = reviewId then map_option f (map_of rs k) else map_of rs k)"
  by (induction rs) auto

lemma findReview_update:
  "findReview (updateReviewRecord db reviewId f) k =
     (if k = reviewId then map_option f (findReview db k) else findReview db k)"
  by (simp add: findReview_def updateReviewRecord_def map_of_updated_rows)

lemma findReview_create:
  "\<exists>r. findReview (fst (createReviewRecord db lessonId)) (nextId db) = Some r"
  by (cases "map_of (rows db) (nextId db)")
     (simp_all add: findReview_def createReviewRecord_def map_add_def)

lemma created_id: "snd (createReviewRecord db lessonId) = nextId db"
  by (simp add: createReviewRecord_def)

subsection \<open>The overall score\<close>



subsection \<open>The decision\<close>

text \<open>
  The count of safety issues that the workflow reads from a result of
  \<open>validateMedicalContent\<close> is 0, whatever the validators reported.
\<close>

theorem validator_has_no_top_level_safety_issues:
  "safetyIssuesCount (validateMedicalContent parseReport a r q) = 0"
  by (simp add: safetyIssuesCount_def validateMedicalContent_def Let_def)

text \<open>
  Claim C2 against the code. The validator reports three safety issues in both reviews.
  With scores on the scale from 0 to 100 the review is approved, while the decision table
  of the claim rejects it; with scores on the validator's scale from 0 to 1 the review is
  rejected, but only for its scores: the reason for safety issues is not given. The count
  that the workflow uses is 0 in both.
\<close>

theorem reported_safety_issues_are_not_counted:
  "reportedSafetyIssues percentValidation = 3
   \<and> safetyIssuesCount percentValidation = 0
   \<and> overallOf (reviewOf percentValidation goodQuality) = Some 92
   \<and> mv_overallScore percentValidation / 100 = 0.9
   \<and> qa_grade goodQuality = ''A (excellent)''
   \<and> decisionOf (reviewOf percentValidation goodQuality) = Some ''APPROVE''
   \<and> reportedSafetyIssues unitValidation = 3
   \<and> safetyIssuesCount unitValidation = 0
   \<and> decisionOf (reviewOf unitValidation goodQuality) = Some ''REJECT''
   \<and> reasonsOf (reviewOf unitValidation goodQuality) = [''Below the minimum quality standard'']"
  by code_simp

text \<open>
  The decision of \<open>processAutoReviewResult\<close> as a table over the overall score, the
  validator's overall score divided by 100, the count of safety issues that the workflow
  reads, and the grade: the conditions of rejection come first.
\<close>

theorem decision_table:
  "decision (processAutoReviewResult a) =
     (if real_of_int (ar_overallScore a) \<le> 50
         \<or> mv_overallScore (ar_medicalValidation a) / 100 \<le> 0.5
         \<or> safetyIssuesCount (ar_medicalValidation a) \<ge> 3
         \<or> startsWith (qa_grade (ar_qualityAssessment a)) ''F''
      then ''REJECT''
      else if real_of_int (ar_overallScore a) \<ge> 85
         \<and> mv_overallScore (ar_medicalValidation a) / 100 \<ge> 0.8
         \<and> safetyIssuesCount (ar_medicalValidation a) = 0
         \<and> \<not> startsWith (qa_grade (ar_qualityAssessment a)) ''D''
         \<and> \<not> startsWith (qa_grade (ar_qualityAssessment a)) ''F''
      then ''APPROVE''
      else ''HUMAN_REVIEW_REQUIRED'')"
  by (simp add: processAutoReviewResult_def Let_def autoReject_def autoApprove_def)

lemma weighted_mean_bound:
  assumes "\<And>x. vd_score (medicalAccuracy v) = Some x \<Longrightarrow> x \<le> 1"
    and "\<And>x. vd_score (clinicalRelevance v) = Some x \<Longrightarrow> x \<le> 1"
    and "\<And>x. vd_score (pedagogicalQuality v) = Some x \<Longrightarrow> x \<le> 1"
  shows "MedicalValidator_calculateOverallScore v \<le> 1"
  using assms
  by (auto simp: MedicalValidator_calculateOverallScore_def addWeighted_def Let_def
      split: option.splits)

lemma entry_bound:
  assumes "\<And>s d x. parseReport s = Some d \<Longrightarrow> vd_score d = Some x \<Longrightarrow> x \<le> 1"
    and "vd_score (case computedReport parseReport a of
                     Some parsed \<Rightarrow> parsed
                   | None \<Rightarrow> degradedReport) = Some x"
  shows "x \<le> 1"
proof (cases "computedReport parseReport a")
  case None
  then show ?thesis
    using assms(2) by (simp add: degradedReport_def)
next
  case (Some parsed)
  then obtain s where "parseReport s = Some parsed"
    by (auto simp: computedReport_def split: sum.splits option.splits)
  then show ?thesis
    using assms Some by auto
qed

lemma validator_score_bound:
  assumes "\<And>s d x. parseReport s = Some d \<Longrightarrow> vd_score d = Some x \<Longrightarrow> x \<le> 1"
  shows "mv_overallScore (validateMedicalContent parseReport a r q) \<le> 1"
proof -
  let ?v = "mv_validation (validateMedicalContent parseReport a r q)"
  have "MedicalValidator_calculateOverallScore ?v \<le> 1"
    using combined_entries[of parseReport a r q] entry_bound[OF assms]
    by (intro weighted_mean_bound) auto
  then show ?thesis
    by (simp add: validateMedicalContent_def Let_def)
qed

text \<open>
  When every score that the validators read is at most 1 (the scale from 0 to 1 that their
  prompts ask for), the validator's overall score divided by 100 is at most 0.01, and
  the review is rejected, whatever the quality assessment.
\<close>

theorem unit_scale_review_is_rejected:
  assumes "\<And>s d x. parseReport s = Some d \<Longrightarrow> vd_score d = Some x \<Longrightarrow> x \<le> 1"
  shows "\<exists>db' out.
           startReviewProcess db lessonId (Inr (validateMedicalContent parseReport a r q)) (Inr qa)
             = (db', Inr out)
         \<and> ro_decision out = ''REJECT''
         \<and> ro_status out = ''rejected''"
proof -
  let ?m = "validateMedicalContent parseReport a r q"
  let ?auto = "\<lparr>ar_medicalValidation = ?m, ar_qualityAssessment = qa,
                ar_overallScore = ReviewWorkflow_calculateOverallScore ?m qa\<rparr>"
  have "mv_overallScore ?m \<le> 1"
    using assms by (rule validator_score_bound)
  then have low: "mv_overallScore ?m / 100 \<le> 0.5"
    by simp
  have "decision (processAutoReviewResult ?auto) = ''REJECT''
        \<and> status (processAutoReviewResult ?auto) = ''rejected''"
    using low
    by (simp add: processAutoReviewResult_def Let_def autoReject_def REJECTED_def)
  then show ?thesis
    by (simp add: startReviewProcess_def performAutoReview_def promiseAll_def Let_def)
qed

theorem unit_scale_review_is_rejected_witness:
  "\<exists>db' out.
     startReviewProcess emptyDb ''lesson-1''
       (Inr (validateMedicalContent toyReport (answer ''{}'') providerDown providerDown))
       (Inr goodQuality) = (db', Inr out)
   \<and> ro_decision out = ''REJECT''
   \<and> ro_status out = ''rejected''"
proof -
  have scale: "x \<le> 1" if "toyReport s = Some d" and "vd_score d = Some x" for s d x
    using that by (auto simp: toyReport_def emptyReport_def split: if_splits)
  show ?thesis
    by (rule unit_scale_review_is_rejected[where parseReport = toyReport, OF scale])
qed

subsection \<open>A review whose assessment throws\<close>

text \<open>
  Claim C3, as amended. When one of the two assessments throws, the record of the review
  is set to \<open>human_review\<close> with the error stored on it, and the error is thrown on to the
  caller, wrapped by \<open>startReviewProcess\<close>: the caller receives no review result.
\<close>

theorem failed_review_is_escalated_and_rethrown:
  assumes "promiseAll medicalOutcome qualityOutcome = Inl e"
  shows "\<exists>db' r. startReviewProcess db lessonId medicalOutcome qualityOutcome =
                    (db', Inl (Wrapped ''Review process failed'' e))
           \<and> findReview db' (nextId db) = Some r
           \<and> rr_status r = HUMAN_REVIEW
           \<and> rr_auto_review_error r = Some e"
proof -
  let ?db0 = "fst (createReviewRecord db lessonId)"
  let ?mark = "\<lambda>r. r\<lparr>rr_status := HUMAN_REVIEW, rr_auto_review_error := Some e\<rparr>"
  let ?db' = "updateReviewRecord
                (updateReviewRecord ?db0 (nextId db) (\<lambda>r. r\<lparr>rr_status := AUTO_REVIEW\<rparr>))
                (nextId db) ?mark"
  obtain r0 where r0: "findReview ?db0 (nextId db) = Some r0"
    using findReview_create by blast
  have run: "startReviewProcess db lessonId medicalOutcome qualityOutcome =
               (?db', Inl (Wrapped ''Review process failed'' e))"
    using assms
    by (simp add: startReviewProcess_def performAutoReview_def created_id Let_def)
  have "findReview ?db' (nextId db) = Some (?mark (r0\<lparr>rr_status := AUTO_REVIEW\<rparr>))"
    using r0 by (simp add: findReview_update)
  then show ?thesis
    using run by simp
qed

theorem failed_review_is_escalated_and_rethrown_witness:
  "promiseAll validationCrash (Inr goodQuality) = Inl (TypeError ''title of undefined'')
   \<and> (\<exists>db' r. startReviewProcess emptyDb ''lesson-1'' validationCrash (Inr goodQuality) =
                 (db', Inl (Wrapped ''Review process failed'' (TypeError ''title of undefined'')))
          \<and> findReview db' (nextId emptyDb) = Some r
          \<and> rr_status r = HUMAN_REVIEW
          \<and> rr_auto_review_error r = Some (TypeError ''title of undefined''))"
proof -
  have h: "promiseAll validationCrash (Inr goodQuality) = Inl (TypeError ''title of undefined'')"
    by (simp add: promiseAll_def validationCrash_def)
  from h and failed_review_is_escalated_and_rethrown[OF h, of emptyDb "''lesson-1''"]
  show ?thesis by (rule conjI)
qed

text \<open>
  Claim C3 as stated fails: when the medical validation throws, the caller of
  \<open>startReviewProcess\<close> receives the error and no review result.
\<close>

theorem failed_review_reaches_the_caller:
  "snd (startReviewProcess emptyDb ''lesson-1'' validationCrash (Inr goodQuality))
     = Inl (Wrapped ''Review process failed'' (TypeError ''title of undefined''))"
  by code_simp

subsection \<open>The human decision\<close>

lemma invalid_decision:
  assumes "toLowerCase dec \<noteq> ''approve''" and "toLowerCase dec \<noteq> ''reject''"
    and "toLowerCase dec \<noteq> ''revision''"
  shows "finalStatusOf dec = Inl (InvalidDecision dec)"
  using assms by (simp add: finalStatusOf_def)

lemma valid_decision:
  assumes "finalStatusOf (hr_decision d) = Inr st" and "findReview db reviewId = Some r"
  shows "(\<exists>out. snd (processHumanReviewResult db reviewId d) = Inr out \<and> ho_finalStatus out = st)
         \<and> map_option rr_status (findReview (fst (processHumanReviewResult db reviewId d)) reviewId)
             = Some st
         \<and> (\<forall>k. k \<noteq> reviewId \<longrightarrow>
               findReview (fst (processHumanReviewResult db reviewId d)) k = findReview db k)"
  using assms by (simp add: processHumanReviewResult_def findReview_update)

text \<open>
  Claim C10. For a review that is on record: when the decision, in lower case, is
  \<open>approve\<close>, \<open>reject\<close> or \<open>revision\<close>, the operation returns and the status of the record
  is \<open>approved\<close>, \<open>rejected\<close> or \<open>revision_required\<close>, the other records being as before;
  for any other decision it throws and the table is as before.
\<close>

theorem human_decision_sets_terminal_state:
  assumes "findReview db reviewId = Some r"
  shows "(toLowerCase (hr_decision d) = ''approve'' \<longrightarrow>
            (\<exists>out. snd (processHumanReviewResult db reviewId d) = Inr out
                \<and> ho_finalStatus out = ''approved'')
            \<and> map_option rr_status
                 (findReview (fst (processHumanReviewResult db reviewId d)) reviewId)
                = Some ''approved'')
       \<and> (toLowerCase (hr_decision d) = ''reject'' \<longrightarrow>
            (\<exists>out. snd (processHumanReviewResult db reviewId d) = Inr out
                \<and> ho_finalStatus out = ''rejected'')
            \<and> map_option rr_status
                 (findReview (fst (processHumanReviewResult db reviewId d)) reviewId)
                = Some ''rejected'')
       \<and> (toLowerCase (hr_decision d) = ''revision'' \<longrightarrow>
            (\<exists>out. snd (processHumanReviewResult db reviewId d) = Inr out
                \<and> ho_finalStatus out = ''revision_required'')
            \<and> map_option rr_status
                 (findReview (fst (processHumanReviewResult db reviewId d)) reviewId)
                = Some ''revision_required'')
       \<and> (toLowerCase (hr_decision d) \<in> {''approve'', ''reject'', ''revision''} \<longrightarrow>
            (\<forall>k. k \<noteq> reviewId \<longrightarrow>
               findReview (fst (processHumanReviewResult db reviewId d)) k = findReview db k))
       \<and> (toLowerCase (hr_decision d) \<notin> {''approve'', ''reject'', ''revision''} \<longrightarrow>
            processHumanReviewResult db reviewId d =
              (db, Inl (Wrapped ''Processing the human review result failed''
                          (InvalidDecision (hr_decision d)))))"
proof -
  have approve: "finalStatusOf (hr_decision d) = Inr ''approved''"
    if "toLowerCase (hr_decision d) = ''approve''"
    using that by (simp add: finalStatusOf_def APPROVED_def)
  have reject: "finalStatusOf (hr_decision d) = Inr ''rejected''"
    if "toLowerCase (hr_decision d) = ''reject''"
    using that by (simp add: finalStatusOf_def REJECTED_def)
  have revision: "finalStatusOf (hr_decision d) = Inr ''revision_required''"
    if "toLowerCase (hr_decision d) = ''revision''"
    using that by (simp add: finalStatusOf_def REVISION_REQUIRED_def)
  have other: "processHumanReviewResult db reviewId d =
                 (db, Inl (Wrapped ''Processing the human review result failed''
                             (InvalidDecision (hr_decision d))))"
    if "toLowerCase (hr_decision d) \<notin> {''approve'', ''reject'', ''revision''}"
    using that invalid_decision[of "hr_decision d"]
    by (simp add: processHumanReviewResult_def)
  show ?thesis
    using valid_decision[OF approve assms] valid_decision[OF reject assms]
      valid_decision[OF revision assms] other
    by blast
qed

theorem human_decision_sets_terminal_state_witness:
  "findReview oneReviewDb 1 = Some pendingReview
   \<and> toLowerCase (hr_decision shoutedApproval) = ''approve''
   \<and> map_option rr_status
        (findReview (fst (processHumanReviewResult oneReviewDb 1 shoutedApproval)) 1)
       = Some ''approved''
   \<and> toLowerCase (hr_decision hesitation) \<notin> {''approve'', ''reject'', ''revision''}
   \<and> processHumanReviewResult oneReviewDb 1 hesitation =
        (oneReviewDb, Inl (Wrapped ''Processing the human review result failed''
                             (InvalidDecision (hr_decision hesitation))))"
proof -
  have h: "findReview oneReviewDb 1 = Some pendingReview"
    by (simp add: findReview_def oneReviewDb_def)
  have yes: "toLowerCase (hr_decision shoutedApproval) = ''approve''"
    by code_simp
  have no: "toLowerCase (hr_decision hesitation) \<notin> {''approve'', ''reject'', ''revision''}"
    by code_simp
  from human_decision_sets_terminal_state[OF h, of shoutedApproval]
    human_decision_sets_terminal_state[OF h, of hesitation]
  show ?thesis
    using h yes no by blast
qed

end
